theory Spec2Isabelle
  imports Main
begin

section \<open>Python values used by mybot.py\<close>

text \<open>
  A Python \<open>str\<close> is a sequence of Unicode code points; \<open>len\<close> counts code points and
  \<open>strip\<close> removes Unicode white space. A string is therefore modelled as a list of
  code points, and an ASCII literal of the source is written \<open>str ''...''\<close>.
\<close>

type_synonym pystr = "nat list"

definition str :: "string \<Rightarrow> pystr" where
  "str s = map of_char s"

text \<open>Truth value of an optional string: \<open>None\<close> and \<open>''\<close> are false.\<close>

definition truthy :: "pystr option \<Rightarrow> bool" where
  "truthy v = (case v of None \<Rightarrow> False | Some s \<Rightarrow> s \<noteq> [])"

text \<open>
  \<open>sep.join(xs)\<close>, and \<open>s.split(c)\<close> for a separator of one code point: every
  occurrence of the separator ends a field, so the result is never the empty list.
\<close>

fun join :: "pystr \<Rightarrow> pystr list \<Rightarrow> pystr" where
  "join sep [] = []"
| "join sep [x] = x"
| "join sep (x # y # ys) = x @ sep @ join sep (y # ys)"

fun split :: "nat \<Rightarrow> pystr \<Rightarrow> pystr list" where
  "split c [] = [[]]"
| "split c (x # xs) =
     (if x = c then [] # split c xs
      else (let r = split c xs in (x # hd r) # tl r))"

text \<open>
  \<open>str.isspace\<close> on one code point (the code points with bidirectional type WS, B or S,
  or category Zs), and \<open>s.strip()\<close>.
\<close>

definition isspace :: "nat \<Rightarrow> bool" where
  "isspace c \<longleftrightarrow>
     (9 \<le> c \<and> c \<le> 13) \<or> (28 \<le> c \<and> c \<le> 32) \<or> c = 133 \<or> c = 160 \<or> c = 5760 \<or>
     (8192 \<le> c \<and> c \<le> 8202) \<or> c = 8232 \<or> c = 8233 \<or> c = 8239 \<or> c = 8287 \<or> c = 12288"

definition strip :: "pystr \<Rightarrow> pystr" where
  "strip s = rev (dropWhile isspace (rev (dropWhile isspace s)))"

definition comma :: nat where
  "comma = 44"

text \<open>
  SQLite holds a text in UTF-8, and Telegram sends one in UTF-8. A Python \<open>str\<close> may
  also hold surrogate code points (U+D800 to U+DFFF), which have no UTF-8 encoding:
  binding such a \<open>str\<close> to a parameter of a statement raises \<open>UnicodeEncodeError\<close>.
  \<open>utf8\<close> is the type of the texts that have an encoding, the ones a column can hold
  and a chat title can be; \<open>codepoints\<close> is the \<open>str\<close> read from one.
\<close>

definition surrogate :: "nat \<Rightarrow> bool" where
  "surrogate c \<longleftrightarrow> 55296 \<le> c \<and> c \<le> 57343"

definition encodable :: "pystr \<Rightarrow> bool" where
  "encodable s = list_all (\<lambda>c. \<not> surrogate c) s"

typedef utf8 = "{s :: nat list. encodable s}"
  morphisms codepoints utf8
  by (rule exI [of _ "[]"]) (simp add: encodable_def)

datatype pyerror = AttributeError | UnicodeEncodeError

section \<open>The groups table and the settings dictionary\<close>

text \<open>
  One row of the table \<open>groups\<close>; the primary key \<open>group_id\<close> is the key of the map.
  \<open>auto_translate\<close> is stored as an integer, \<open>source_langs\<close> as one text. Every row
  is written by \<open>_update_group_settings\<close>, which binds a string or an integer to each
  column, so no column is NULL, and a text comes back as it was stored.
  The model covers the runs in which SQLite itself answers (the file can be opened, the
  statements execute, a chat identifier fits an INTEGER and a text the length limit).
\<close>

record row =
  row_group_name :: utf8
  row_auto_translate :: int
  row_source_langs :: utf8
  row_target_lang :: utf8

type_synonym db = "int \<rightharpoonup> row"

text \<open>
  The dictionary built by \<open>_get_group_settings\<close>. It always has the keys \<open>group_id\<close>,
  \<open>auto_translate\<close>, \<open>source_langs\<close> and \<open>target_lang\<close>; the key \<open>group_name\<close> is
  absent from the default dictionary (\<open>None\<close> here).
\<close>

record settings =
  group_id :: int
  group_name :: "pystr option"
  auto_translate :: bool
  source_langs :: "pystr list"
  target_lang :: pystr

definition default_settings :: "int \<Rightarrow> settings" where
  "default_settings gid =
     \<lparr>group_id = gid, group_name = None, auto_translate = False,
      source_langs = [str ''en'', str ''id''], target_lang = str ''my''\<rparr>"

text \<open>
  \<open>_get_group_settings\<close>: a SELECT under the lock. The table is returned with the
  dictionary so that what the call leaves in the table can be stated.
\<close>

definition get_group_settings :: "int \<Rightarrow> db \<Rightarrow> settings \<times> db" where
  "get_group_settings gid d =
     (case d gid of
        None \<Rightarrow> (default_settings gid, d)
      | Some r \<Rightarrow>
          (\<lparr>group_id = gid,
            group_name = Some (codepoints (row_group_name r)),
            auto_translate = (row_auto_translate r \<noteq> 0),
            source_langs = split comma (codepoints (row_source_langs r)),
            target_lang = codepoints (row_target_lang r)\<rparr>, d))"

text \<open>\<open>settings.get('group_name', '')\<close>, the only \<open>get\<close> whose default can be taken.\<close>

definition get_group_name :: "settings \<Rightarrow> pystr" where
  "get_group_name s = (case group_name s of None \<Rightarrow> [] | Some n \<Rightarrow> n)"

text \<open>
  \<open>_update_group_settings\<close>: INSERT OR REPLACE of the whole row under the key
  \<open>group_id\<close> (the argument, not the dictionary's entry). The three strings are bound
  to the statement; when one of them has no encoding, \<open>execute\<close> raises
  \<open>UnicodeEncodeError\<close>, which leaves the function before \<open>commit\<close>: the table is as
  it was. The result is the exception raised, if any, and the table left.
\<close>

definition update_group_settings :: "int \<Rightarrow> settings \<Rightarrow> db \<Rightarrow> pyerror option \<times> db" where
  "update_group_settings gid s d =
     (if encodable (get_group_name s) \<and> encodable (join [comma] (source_langs s)) \<and>
         encodable (target_lang s)
      then (None,
            d(gid \<mapsto>
              \<lparr>row_group_name = utf8 (get_group_name s),
               row_auto_translate = (if auto_translate s then 1 else 0),
               row_source_langs = utf8 (join [comma] (source_langs s)),
               row_target_lang = utf8 (target_lang s)\<rparr>))
      else (Some UnicodeEncodeError, d))"

section \<open>Collaborators: translator, chat transport, logger\<close>

text \<open>
  A call to an external object either raises an \<open>Exception\<close> (kept with its text), which
  is what the handlers of the source catch, or returns.
  \<open>detect env t\<close> stands for \<open>translator.detect(t).lang\<close> and \<open>translate env t src dst\<close>
  for \<open>translator.translate(t, src=src, dest=dst).text\<close>; a returned \<open>None\<close> is
  Python's \<open>None\<close>. Sending a reply and writing a log line are taken to return.
\<close>

datatype 'a outcome = Raised pystr | Returned 'a

record env =
  detect :: "pystr \<Rightarrow> pystr option outcome"
  translate :: "pystr \<Rightarrow> pystr \<Rightarrow> pystr \<Rightarrow> pystr option outcome"
  ban_chat_member :: "int \<Rightarrow> int \<Rightarrow> unit outcome"

text \<open>What a handler does to the outside, in the order it does it.\<close>

datatype event =
    DetectCall pystr
  | TranslateCall pystr pystr pystr
  | BanCall int int
  | LogError pystr
  | Reply pystr

fun is_Reply :: "event \<Rightarrow> bool" where
  "is_Reply (Reply _) = True"
| "is_Reply _ = False"

fun is_DetectCall :: "event \<Rightarrow> bool" where
  "is_DetectCall (DetectCall _) = True"
| "is_DetectCall _ = False"

fun is_TranslateCall :: "event \<Rightarrow> bool" where
  "is_TranslateCall (TranslateCall _ _ _) = True"
| "is_TranslateCall _ = False"

fun is_BanCall :: "event \<Rightarrow> bool" where
  "is_BanCall (BanCall _ _) = True"
| "is_BanCall _ = False"

text \<open>
  The fields of \<open>Update\<close> that the handlers read. An update carries a new message or an
  edited one, and the three handlers receive both kinds. \<open>update.effective_message\<close> and
  \<open>update.effective_chat\<close> are the message and its chat in both cases, whereas
  \<open>update.message\<close> is \<open>None\<close> when the message is an edited one (\<open>edited\<close>).
  \<open>message_text\<close> and \<open>reply_to_message\<close> are those of the effective message;
  \<open>from_user\<close> of the message replied to may be \<open>None\<close>.
\<close>

record user =
  user_id :: int
  mention_html :: pystr

record replied_message =
  from_user :: "user option"

record update =
  chat_id :: int
  title :: "utf8 option"
  edited :: bool
  message_text :: "pystr option"
  reply_to_message :: "replied_message option"

text \<open>\<open>update.effective_chat.title\<close>\<close>

definition chat_title :: "update \<Rightarrow> pystr option" where
  "chat_title u = map_option codepoints (title u)"

definition SUPPORTED_LANGS :: "(pystr \<times> pystr) list" where
  "SUPPORTED_LANGS =
     [(str ''en'', str ''English''), (str ''id'', str ''Indonesian''), (str ''my'', str ''Myanmar'')]"

text \<open>\<open>SUPPORTED_LANGS.get(code, code)\<close>\<close>

definition lang_name :: "pystr \<Rightarrow> pystr" where
  "lang_name code = (case map_of SUPPORTED_LANGS code of None \<Rightarrow> code | Some n \<Rightarrow> n)"

section \<open>The translator wrappers\<close>

text \<open>Both wrappers catch every exception of the call, log it and return \<open>None\<close>.\<close>

definition detect_language :: "env \<Rightarrow> pystr \<Rightarrow> pystr option \<times> event list" where
  "detect_language e t =
     (case detect e t of
        Returned l \<Rightarrow> (l, [DetectCall t])
      | Raised x \<Rightarrow> (None, [DetectCall t, LogError (str ''Language detection error: '' @ x)]))"

definition translate_text :: "env \<Rightarrow> pystr \<Rightarrow> pystr \<Rightarrow> pystr \<Rightarrow> pystr option \<times> event list" where
  "translate_text e t src_lang dest_lang =
     (case translate e t src_lang dest_lang of
        Returned r \<Rightarrow> (r, [TranslateCall t src_lang dest_lang])
      | Raised x \<Rightarrow>
          (None, [TranslateCall t src_lang dest_lang, LogError (str ''Translation error: '' @ x)]))"

section \<open>The handlers\<close>

text \<open>
  \<open>handle_translation\<close> returns \<open>None\<close> at five places and falls off its end when the
  translation is empty or \<open>None\<close>. The action records which of them was taken, in the
  order of the source: the two alternatives of the test after the detection are told
  apart as Python evaluates \<open>or\<close>, left operand first. A reply is sent exactly in the
  action \<open>Translate\<close>.
\<close>

datatype skip_reason =
    Disabled
  | TooShort
  | DetectionFailed
  | SourceNotEligible
  | AlreadyTarget
  | TranslationFailed

datatype action = Skip skip_reason | Translate pystr pystr pystr

definition translation_reply :: "pystr \<Rightarrow> pystr \<Rightarrow> pystr \<Rightarrow> pystr" where
  "translation_reply src_lang dest_lang translated =
     [127760] @ str '' Translated from '' @ lang_name src_lang @ str '' to '' @
     lang_name dest_lang @ str '':'' @ [10, 10] @ translated"

definition handle_translation :: "env \<Rightarrow> update \<Rightarrow> db \<Rightarrow> action \<times> event list \<times> db" where
  "handle_translation e u d =
     (let (s, d1) = get_group_settings (chat_id u) d in
      if \<not> auto_translate s then (Skip Disabled, [], d1)
      else (case message_text u of
        None \<Rightarrow> (Skip TooShort, [], d1)
      | Some t \<Rightarrow>
          if t = [] \<or> length (strip t) < 5 then (Skip TooShort, [], d1)
          else (let (src_lang, ev1) = detect_language e t in
            (case src_lang of
              None \<Rightarrow> (Skip DetectionFailed, ev1, d1)
            | Some src \<Rightarrow>
                if src = [] then (Skip DetectionFailed, ev1, d1)
                else if src \<notin> set (source_langs s) then (Skip SourceNotEligible, ev1, d1)
                else if src = target_lang s then (Skip AlreadyTarget, ev1, d1)
                else (let (translated, ev2) = translate_text e t src (target_lang s) in
                  if truthy translated
                  then (Translate src (target_lang s) (the translated),
                        ev1 @ ev2 @
                        [Reply (translation_reply src (target_lang s) (the translated))],
                        d1)
                  else (Skip TranslationFailed, ev1 @ ev2, d1))))))"

text \<open>Lines 182 to 187 of \<open>toggle_translation\<close>: the change made to the local dictionary.\<close>

definition toggled :: "update \<Rightarrow> settings \<Rightarrow> settings" where
  "toggled u s =
     (let s1 = s\<lparr>auto_translate := \<not> auto_translate s\<rparr>
      in if truthy (chat_title u) then s1\<lparr>group_name := chat_title u\<rparr> else s1)"

definition toggle_reply :: "settings \<Rightarrow> pystr" where
  "toggle_reply s =
     [127757] @ str '' Auto-translation has been '' @
     (if auto_translate s then str ''enabled'' else str ''disabled'') @ str ''.'' @ [10] @
     str ''Currently translating from: '' @ join (str '', '') (source_langs s) @ [10] @
     str ''Target language: '' @ target_lang s"

text \<open>
  The two command handlers return the exception that leaves them, if any, with what
  they did before it, and the table. \<open>toggle_translation\<close> sends its reply through
  \<open>update.message\<close> after the upsert, and \<open>ban_user\<close> reads
  \<open>update.message.reply_to_message\<close> first: for an edited command both raise
  \<open>AttributeError\<close> there. In \<open>ban_user\<close> the call of the ban and the reply after it
  stand in a \<open>try\<close>; so does \<open>user.id\<close>, which raises when the message replied to has
  no sender, before the ban is called.
\<close>

definition toggle_translation :: "update \<Rightarrow> db \<Rightarrow> (pyerror option \<times> event list) \<times> db" where
  "toggle_translation u d =
     (let (s, d1) = get_group_settings (chat_id u) d;
          s2 = toggled u s;
          (raised, d2) = update_group_settings (chat_id u) s2 d1
      in (case raised of
            Some x \<Rightarrow> ((Some x, []), d2)
          | None \<Rightarrow>
              if edited u then ((Some AttributeError, []), d2)
              else ((None, [Reply (toggle_reply s2)]), d2)))"

definition ban_user :: "env \<Rightarrow> update \<Rightarrow> db \<Rightarrow> (pyerror option \<times> event list) \<times> db" where
  "ban_user e u d =
     (if edited u then ((Some AttributeError, []), d)
      else (case reply_to_message u of
        None \<Rightarrow>
          ((None, [Reply (str ''Please reply to the user's message to ban them.'')]), d)
      | Some m \<Rightarrow>
          (case from_user m of
             None \<Rightarrow>
               ((None,
                 [LogError (str ''Error banning user: '' @ [39] @ str ''NoneType'' @ [39] @
                            str '' object has no attribute '' @ [39] @ str ''id'' @ [39]),
                  Reply (str ''Failed to ban user. I might not have admin privileges.'')]),
                d)
           | Some usr \<Rightarrow>
               (case ban_chat_member e (chat_id u) (user_id usr) of
                  Returned _ \<Rightarrow>
                    ((None,
                      [BanCall (chat_id u) (user_id usr),
                       Reply ([128683] @ str '' User '' @ mention_html usr @
                              str '' has been banned.'')]), d)
                | Raised x \<Rightarrow>
                    ((None,
                      [BanCall (chat_id u) (user_id usr),
                       LogError (str ''Error banning user: '' @ x),
                       Reply (str ''Failed to ban user. I might not have admin privileges.'')]),
                     d)))))"

section \<open>Histories of updates\<close>

text \<open>
  The dispatcher hands a text message of a group to \<open>handle_translation\<close>, the command
  \<open>/translate\<close> to \<open>toggle_translation\<close> and the command \<open>/ban\<close> to \<open>ban_user\<close>.
  \<open>run\<close> is the table after a list of updates handled one after the other.
\<close>

datatype incoming = Message update | TranslateCommand update | BanCommand update

fun dispatch :: "env \<Rightarrow> incoming \<Rightarrow> db \<Rightarrow> db" where
  "dispatch e (Message u) d = snd (snd (handle_translation e u d))"
| "dispatch e (TranslateCommand u) d = snd (toggle_translation u d)"
| "dispatch e (BanCommand u) d = snd (ban_user e u d)"

fun run :: "env \<Rightarrow> incoming list \<Rightarrow> db \<Rightarrow> db" where
  "run e [] d = d"
| "run e (i # rest) d = run e rest (dispatch e i d)"

text \<open>The updates that write the row of a group.\<close>

fun configures :: "int \<Rightarrow> incoming \<Rightarrow> bool" where
  "configures gid (TranslateCommand u) = (chat_id u = gid)"
| "configures gid (Message u) = False"
| "configures gid (BanCommand u) = False"

section \<open>Two invocations of the toggle side by side\<close>

text \<open>
  \<open>db_lock\<close> is taken inside \<open>_get_group_settings\<close> and inside
  \<open>_update_group_settings\<close>, and released when each returns. An invocation of
  \<open>toggle_translation\<close> is therefore two atomic steps on the table, with the dictionary
  it has read held in a local variable in between; the reply it sends afterwards does
  not touch the table and is left out. A schedule says which of two invocations takes
  the next step.
\<close>

datatype toggle_pc = Start | HaveRead settings | Finished

fun toggle_step :: "update \<Rightarrow> toggle_pc \<times> db \<Rightarrow> toggle_pc \<times> db" where
  "toggle_step u (Start, d) = (let (s, d1) = get_group_settings (chat_id u) d in (HaveRead s, d1))"
| "toggle_step u (HaveRead s, d) =
     (Finished, snd (update_group_settings (chat_id u) (toggled u s) d))"
| "toggle_step u (Finished, d) = (Finished, d)"

datatype thread = First | Second

fun interleave ::
  "update \<Rightarrow> update \<Rightarrow> thread list \<Rightarrow> toggle_pc \<times> toggle_pc \<times> db \<Rightarrow> toggle_pc \<times> toggle_pc \<times> db"
where
  "interleave u1 u2 [] st = st"
| "interleave u1 u2 (First # sched) (p1, p2, d) =
     (let (p1', d') = toggle_step u1 (p1, d) in interleave u1 u2 sched (p1', p2, d'))"
| "interleave u1 u2 (Second # sched) (p1, p2, d) =
     (let (p2', d') = toggle_step u2 (p2, d) in interleave u1 u2 sched (p1, p2', d'))"

text \<open>The flag a read of the group returns.\<close>

definition stored_flag :: "int \<Rightarrow> db \<Rightarrow> bool" where
  "stored_flag gid d = auto_translate (fst (get_group_settings gid d))"

section \<open>Outcomes of the translator that the handler cannot use\<close>

text \<open>
  An exception, \<open>None\<close> or the empty string: the values for which
  \<open>not src_lang\<close> holds, or \<open>if translated\<close> fails, after the wrappers.
\<close>

fun unusable :: "pystr option outcome \<Rightarrow> bool" where
  "unusable (Raised x) = True"
| "unusable (Returned v) = (\<not> truthy v)"

section \<open>Example inputs\<close>

text \<open>
  A translator that answers every call alike, a group stored with translation
  switched on for English and Indonesian into Myanmar, and updates of group 1.
\<close>

definition constant_env :: "pystr option outcome \<Rightarrow> pystr option outcome \<Rightarrow> env" where
  "constant_env dl tr =
     \<lparr>detect = (\<lambda>t. dl), translate = (\<lambda>t src dst. tr), ban_chat_member = (\<lambda>c usr. Returned ())\<rparr>"

definition enabled_row :: row where
  "enabled_row =
     \<lparr>row_group_name = utf8 (str ''Friends''), row_auto_translate = 1,
      row_source_langs = utf8 (str ''en,id''), row_target_lang = utf8 (str ''my'')\<rparr>"

definition enabled_db :: db where
  "enabled_db = Map.empty(1 \<mapsto> enabled_row)"

definition text_update :: "pystr \<Rightarrow> update" where
  "text_update t =
     \<lparr>chat_id = 1, title = Some (utf8 (str ''Friends'')), edited = False,
      message_text = Some t, reply_to_message = None\<rparr>"

definition command_update :: "int \<Rightarrow> update" where
  "command_update gid =
     \<lparr>chat_id = gid, title = None, edited = False, message_text = Some (str ''/translate''),
      reply_to_message = None\<rparr>"

text \<open>The command \<open>/ban\<close>, not a reply to a message, after its sender has edited it.\<close>

definition edited_ban_update :: update where
  "edited_ban_update =
     \<lparr>chat_id = 1, title = Some (utf8 (str ''Friends'')), edited = True,
      message_text = Some (str ''/ban''), reply_to_message = None\<rparr>"

text \<open>A dictionary whose group name ends in a surrogate code point.\<close>

definition surrogate_settings :: settings where
  "surrogate_settings =
     \<lparr>group_id = 7, group_name = Some (str ''bad'' @ [55296]), auto_translate = True,
      source_langs = [str ''en'', str ''id''], target_lang = str ''my''\<rparr>"

section \<open>Facts about the store\<close>

lemma split_nonempty: "split c s \<noteq> []"
  by (induction s) (auto simp: Let_def)

lemma split_field: "c \<notin> set x \<Longrightarrow> split c (x @ c # r) = x # split c r"
  by (induction x) (auto simp: Let_def)

lemma split_no_sep: "c \<notin> set x \<Longrightarrow> split c x = [x]"
  by (induction x) (auto simp: Let_def)

lemma split_join: "xs \<noteq> [] \<Longrightarrow> \<forall>x\<in>set xs. c \<notin> set x \<Longrightarrow> split c (join [c] xs) = xs"
  by (induction "[c]" xs rule: join.induct) (auto simp: split_field split_no_sep)

lemma join_split: "join [c] (split c s) = s"
proof (induction s)
  case Nil
  show ?case by simp
next
  case (Cons x s)
  obtain w ws where r: "split c s = w # ws"
    using split_nonempty[of c s] by (cases "split c s") auto
  show ?case using Cons r by (cases ws) (auto simp: Let_def)
qed

lemma codepoints_utf8 [simp]: "encodable s \<Longrightarrow> codepoints (utf8 s) = s"
  by (simp add: utf8_inverse)

lemma encodable_codepoints [simp]: "encodable (codepoints t)"
  using codepoints [of t] by simp

lemma utf8_codepoints [simp]: "utf8 (codepoints t) = t"
  by (rule codepoints_inverse)

lemma encodable_Nil [simp]: "encodable []"
  by (simp add: encodable_def)

lemma encodable_append [simp]: "encodable (a @ b) \<longleftrightarrow> encodable a \<and> encodable b"
  by (simp add: encodable_def)

lemma encodable_comma [simp]: "encodable (comma # s) \<longleftrightarrow> encodable s"
  by (simp add: encodable_def comma_def surrogate_def)

lemma encodable_str [simp]: "encodable (str s)"
proof -
  have "\<not> surrogate (of_char c)" for c :: char
    using nat_of_char_less_256 [of c] unfolding surrogate_def by linarith
  then show ?thesis
    by (induction s) (simp_all add: str_def encodable_def)
qed

lemma encodable_join: "encodable (join [comma] xs) \<longleftrightarrow> (\<forall>x\<in>set xs. encodable x)"
  by (induction "[comma]" xs rule: join.induct) auto

lemma get_default: "d gid = None \<Longrightarrow> get_group_settings gid d = (default_settings gid, d)"
  by (simp add: get_group_settings_def)

lemma snd_get [simp]: "snd (get_group_settings gid d) = d"
  by (simp add: get_group_settings_def split: option.split)

lemma encodable_read:
  "encodable (get_group_name (fst (get_group_settings gid d)))"
  "encodable (join [comma] (source_langs (fst (get_group_settings gid d))))"
  "encodable (target_lang (fst (get_group_settings gid d)))"
  by (simp_all add: get_group_settings_def get_group_name_def default_settings_def join_split
      split: option.split)

lemma toggled_fields:
  "auto_translate (toggled u s) = (\<not> auto_translate s)"
  "source_langs (toggled u s) = source_langs s"
  "target_lang (toggled u s) = target_lang s"
  "\<not> truthy (chat_title u) \<Longrightarrow> group_name (toggled u s) = group_name s"
  by (simp_all add: toggled_def Let_def)

lemma encodable_toggled_name:
  "encodable (get_group_name s) \<Longrightarrow> encodable (get_group_name (toggled u s))"
  by (cases "title u") (simp_all add: toggled_def Let_def get_group_name_def chat_title_def)

lemma update_after_read:
  "update_group_settings g (toggled u (fst (get_group_settings gid d))) d' =
     (None,
      d'(g \<mapsto>
        \<lparr>row_group_name = utf8 (get_group_name (toggled u (fst (get_group_settings gid d)))),
         row_auto_translate = (if auto_translate (fst (get_group_settings gid d)) then 0 else 1),
         row_source_langs = utf8 (join [comma] (source_langs (fst (get_group_settings gid d)))),
         row_target_lang = utf8 (target_lang (fst (get_group_settings gid d)))\<rparr>))"
  by (simp add: update_group_settings_def encodable_read encodable_toggled_name toggled_fields)

lemma toggle_db:
  "snd (toggle_translation u d) =
     snd (update_group_settings (chat_id u) (toggled u (fst (get_group_settings (chat_id u) d))) d)"
  by (simp add: toggle_translation_def Let_def case_prod_beta split: option.split)

lemma handle_translation_db: "snd (snd (handle_translation e u d)) = d"
  by (simp add: handle_translation_def Let_def case_prod_beta split: option.split)

lemma ban_user_db: "snd (ban_user e u d) = d"
  by (simp add: ban_user_def split: option.split outcome.split)

lemma toggle_other: "chat_id u \<noteq> gid \<Longrightarrow> snd (toggle_translation u d) gid = d gid"
  by (simp add: toggle_db update_after_read)

lemma dispatch_other: "\<not> configures gid i \<Longrightarrow> dispatch e i d gid = d gid"
  by (cases i) (simp_all add: handle_translation_db ban_user_db toggle_other)

lemma run_other: "\<forall>i\<in>set hist. \<not> configures gid i \<Longrightarrow> run e hist d gid = d gid"
  by (induction hist arbitrary: d) (simp_all add: dispatch_other)

section \<open>Facts about the handlers\<close>

lemma read_enabled_db:
  "get_group_settings 1 enabled_db =
     (\<lparr>group_id = 1, group_name = Some (str ''Friends''), auto_translate = True,
       source_langs = [str ''en'', str ''id''], target_lang = str ''my''\<rparr>, enabled_db)"
proof -
  have "split comma (str ''en,id'') = [str ''en'', str ''id'']"
    by (simp add: str_def comma_def)
  then show ?thesis
    by (simp add: get_group_settings_def enabled_db_def enabled_row_def)
qed

lemma chat_id_text_update [simp]: "chat_id (text_update t) = 1"
  by (simp add: text_update_def)

lemma message_text_text_update [simp]: "message_text (text_update t) = Some t"
  by (simp add: text_update_def)

lemma good_morning_long:
  "str ''Good morning everyone'' \<noteq> [] \<and> \<not> length (strip (str ''Good morning everyone'')) < 5"
  by (simp add: str_def strip_def isspace_def)

lemma detect_constant [simp]: "detect (constant_env dl tr) t = dl"
  by (simp add: constant_env_def)

lemma translate_constant [simp]: "translate (constant_env dl tr) t a b = tr"
  by (simp add: constant_env_def)

lemma unusable_detect:
  "unusable (detect e t) \<Longrightarrow> fst (detect_language e t) = None \<or> fst (detect_language e t) = Some []"
  by (cases "detect e t") (auto simp: detect_language_def truthy_def split: option.splits)

lemma detect_language_events: "\<not> list_ex is_Reply (snd (detect_language e t))"
  by (cases "detect e t") (simp_all add: detect_language_def)

lemma translate_text_events: "\<not> list_ex is_Reply (snd (translate_text e t a b))"
  by (cases "translate e t a b") (simp_all add: translate_text_def)

lemma detect_language_Returned: "detect e t = Returned l \<Longrightarrow> detect_language e t = (l, [DetectCall t])"
  by (simp add: detect_language_def)

lemma unusable_translate:
  "unusable (translate e t a b) \<Longrightarrow> \<not> truthy (fst (translate_text e t a b))"
  by (cases "translate e t a b") (auto simp: translate_text_def truthy_def)

lemma default_langs_roundtrip:
  "split comma (str ''en'' @ comma # str ''id'') = [str ''en'', str ''id'']"
  by (simp add: str_def comma_def)

lemma read_after_toggle:
  "fst (get_group_settings (chat_id u) (snd (toggle_translation u d))) =
     \<lparr>group_id = chat_id u,
      group_name = Some (get_group_name (toggled u (fst (get_group_settings (chat_id u) d)))),
      auto_translate = (\<not> auto_translate (fst (get_group_settings (chat_id u) d))),
      source_langs = source_langs (fst (get_group_settings (chat_id u) d)),
      target_lang = target_lang (fst (get_group_settings (chat_id u) d))\<rparr>"
proof -
  let ?s = "fst (get_group_settings (chat_id u) d)"
  have langs: "split comma (join [comma] (source_langs ?s)) = source_langs ?s"
    by (cases "d (chat_id u)")
      (simp_all add: get_group_settings_def default_settings_def default_langs_roundtrip
        join_split)
  show ?thesis
    by (simp add: toggle_db update_after_read get_group_settings_def [of _ "_(_ \<mapsto> _)"]
        encodable_read encodable_toggled_name langs)
qed

lemma serial_first:
  "interleave u1 u2 [First, First, Second, Second] (Start, Start, d) =
     (Finished, Finished, snd (toggle_translation u2 (snd (toggle_translation u1 d))))"
  by (simp add: toggle_db Let_def case_prod_beta)

lemma serial_second:
  "interleave u1 u2 [Second, Second, First, First] (Start, Start, d) =
     (Finished, Finished, snd (toggle_translation u1 (snd (toggle_translation u2 d))))"
  by (simp add: toggle_db Let_def case_prod_beta)

lemma read_after_toggled_update:
  "auto_translate (fst (get_group_settings g
      (snd (update_group_settings g (toggled u (fst (get_group_settings gid d))) d')))) =
     (\<not> auto_translate (fst (get_group_settings gid d)))"
  by (simp add: update_after_read get_group_settings_def [of _ "_(_ \<mapsto> _)"])

lemma overlapping:
  assumes "chat_id u1 = gid" and "chat_id u2 = gid"
    and "sched \<in> {[First, Second, First, Second], [First, Second, Second, First],
                  [Second, First, First, Second], [Second, First, Second, First]}"
  shows "fst (interleave u1 u2 sched (Start, Start, d)) = Finished
         \<and> fst (snd (interleave u1 u2 sched (Start, Start, d))) = Finished
         \<and> stored_flag gid (snd (snd (interleave u1 u2 sched (Start, Start, d)))) =
             (\<not> stored_flag gid d)"
  using assms
  by (auto simp add: Let_def case_prod_beta stored_flag_def read_after_toggled_update)

lemma join_en_id: "str ''en'' @ comma # str ''id'' = str ''en,id''"
  unfolding str_def comma_def by simp

lemma split_en_id: "split comma (str ''en,id'') = [str ''en'', str ''id'']"
  by (simp add: str_def comma_def)

lemma first_toggle_row:
  "get_group_name (toggled (command_update g) (fst (get_group_settings gid Map.empty))) = []"
  "auto_translate (fst (get_group_settings gid Map.empty)) = False"
  "join [comma] (source_langs (fst (get_group_settings gid Map.empty))) = str ''en,id''"
  "target_lang (fst (get_group_settings gid Map.empty)) = str ''my''"
  by (simp_all add: get_group_settings_def default_settings_def toggled_def Let_def
      chat_title_def truthy_def command_update_def get_group_name_def join_en_id)

section \<open>The end-to-end example\<close>

text \<open>
  C1, as amended. In a group read as translation on, sources \<open>en\<close> and \<open>id\<close>, target
  \<open>my\<close>, the message \<open>Good morning everyone\<close>, detected as \<open>en\<close> and translated to
  a non-empty text \<open>T\<close>, is answered: the action is \<open>Translate en my T\<close> and the reply
  carries \<open>T\<close> under the names of the two languages.
\<close>

theorem end_to_end_translation:
  assumes "auto_translate (fst (get_group_settings (chat_id u) d))"
    and "source_langs (fst (get_group_settings (chat_id u) d)) = [str ''en'', str ''id'']"
    and "target_lang (fst (get_group_settings (chat_id u) d)) = str ''my''"
    and "message_text u = Some (str ''Good morning everyone'')"
    and "detect e (str ''Good morning everyone'') = Returned (Some (str ''en''))"
    and "translate e (str ''Good morning everyone'') (str ''en'') (str ''my'') = Returned (Some T)"
    and "T \<noteq> []"
  shows "handle_translation e u d =
           (Translate (str ''en'') (str ''my'') T,
            [DetectCall (str ''Good morning everyone''),
             TranslateCall (str ''Good morning everyone'') (str ''en'') (str ''my''),
             Reply ([127760] @ str '' Translated from English to Myanmar:'' @ [10, 10] @ T)],
            d)"
proof -
  have n: "lang_name (str ''en'') = str ''English''" "lang_name (str ''my'') = str ''Myanmar''"
    by (simp_all add: lang_name_def SUPPORTED_LANGS_def str_def)
  have r: "translation_reply (str ''en'') (str ''my'') T =
             [127760] @ str '' Translated from English to Myanmar:'' @ [10, 10] @ T"
    unfolding translation_reply_def n by (simp add: str_def)
  have m: "str ''en'' \<noteq> []" "str ''en'' \<noteq> str ''my''"
    by (simp_all add: str_def)
  show ?thesis
    using assms good_morning_long m
    by (simp add: handle_translation_def Let_def case_prod_beta detect_language_Returned
        translate_text_def truthy_def r)
qed

theorem end_to_end_translation_witness:
  "handle_translation (constant_env (Returned (Some (str ''en''))) (Returned (Some (str ''T''))))
     (text_update (str ''Good morning everyone'')) enabled_db =
     (Translate (str ''en'') (str ''my'') (str ''T''),
      [DetectCall (str ''Good morning everyone''),
       TranslateCall (str ''Good morning everyone'') (str ''en'') (str ''my''),
       Reply ([127760] @ str '' Translated from English to Myanmar:'' @ [10, 10] @ str ''T'')],
      enabled_db)"
proof -
  let ?e = "constant_env (Returned (Some (str ''en''))) (Returned (Some (str ''T'')))"
  let ?u = "text_update (str ''Good morning everyone'')"
  have a: "auto_translate (fst (get_group_settings (chat_id ?u) enabled_db))"
    by (simp add: read_enabled_db)
  have b: "source_langs (fst (get_group_settings (chat_id ?u) enabled_db)) = [str ''en'', str ''id'']"
    by (simp add: read_enabled_db)
  have c: "target_lang (fst (get_group_settings (chat_id ?u) enabled_db)) = str ''my''"
    by (simp add: read_enabled_db)
  have f: "message_text ?u = Some (str ''Good morning everyone'')" by simp
  have g: "detect ?e (str ''Good morning everyone'') = Returned (Some (str ''en''))" by simp
  have h: "translate ?e (str ''Good morning everyone'') (str ''en'') (str ''my'') =
             Returned (Some (str ''T''))" by simp
  have i: "str ''T'' \<noteq> []" by (simp add: str_def)
  show ?thesis
    by (rule end_to_end_translation [OF a b c f g h i])
qed

text \<open>
  C1 as stated, for every result \<open>T\<close>, fails at the empty string: \<open>if translated\<close> is
  false for it, no reply is sent and the handler ends as for a failed translation.
\<close>

theorem empty_translation_counterexample:
  "auto_translate (fst (get_group_settings 1 enabled_db))
   \<and> source_langs (fst (get_group_settings 1 enabled_db)) = [str ''en'', str ''id'']
   \<and> target_lang (fst (get_group_settings 1 enabled_db)) = str ''my''
   \<and> handle_translation (constant_env (Returned (Some (str ''en''))) (Returned (Some [])))
        (text_update (str ''Good morning everyone'')) enabled_db =
       (Skip TranslationFailed,
        [DetectCall (str ''Good morning everyone''),
         TranslateCall (str ''Good morning everyone'') (str ''en'') (str ''my'')],
        enabled_db)"
  using good_morning_long
  by (simp add: handle_translation_def Let_def read_enabled_db detect_language_def
      translate_text_def truthy_def str_def)

section \<open>Reading a group that was never configured\<close>

text \<open>
  C2. A group that has no row, and for which no \<open>/translate\<close> command was handled since,
  reads as the default dictionary (translation off, sources \<open>en\<close> and \<open>id\<close>, target
  \<open>my\<close>); a second read returns the same, and the read leaves no row for the group.
\<close>

theorem read_unconfigured_default:
  assumes "d0 gid = None" and "\<forall>i\<in>set hist. \<not> configures gid i"
  shows "get_group_settings gid (run e hist d0) =
           (\<lparr>group_id = gid, group_name = None, auto_translate = False,
             source_langs = [str ''en'', str ''id''], target_lang = str ''my''\<rparr>,
            run e hist d0)
         \<and> get_group_settings gid (snd (get_group_settings gid (run e hist d0))) =
             get_group_settings gid (run e hist d0)
         \<and> snd (get_group_settings gid (run e hist d0)) gid = None"
proof -
  have "run e hist d0 gid = None"
    using assms by (simp add: run_other)
  then show ?thesis
    by (simp add: get_default default_settings_def)
qed

theorem read_unconfigured_default_witness:
  "get_group_settings 1
     (run (constant_env (Returned None) (Returned None))
        [TranslateCommand (command_update 2), Message (text_update (str ''hello there''))]
        Map.empty) =
     (\<lparr>group_id = 1, group_name = None, auto_translate = False,
       source_langs = [str ''en'', str ''id''], target_lang = str ''my''\<rparr>,
      Map.empty(2 \<mapsto> \<lparr>row_group_name = utf8 [], row_auto_translate = 1,
                      row_source_langs = utf8 (str ''en,id''),
                      row_target_lang = utf8 (str ''my'')\<rparr>))"
proof -
  have a: "(Map.empty :: db) 1 = None" by simp
  have b: "\<forall>i\<in>set [TranslateCommand (command_update 2), Message (text_update (str ''hello there''))].
             \<not> configures 1 i"
    by (simp add: command_update_def)
  have c: "run (constant_env (Returned None) (Returned None))
        [TranslateCommand (command_update 2), Message (text_update (str ''hello there''))]
        Map.empty = Map.empty(2 \<mapsto> \<lparr>row_group_name = utf8 [], row_auto_translate = 1,
                      row_source_langs = utf8 (str ''en,id''),
                      row_target_lang = utf8 (str ''my'')\<rparr>)"
    by (simp add: handle_translation_db toggle_db update_after_read first_toggle_row)
      (simp add: command_update_def)
  show ?thesis
    using read_unconfigured_default [OF a b, of "constant_env (Returned None) (Returned None)"]
    unfolding c by simp
qed

section \<open>Toggling twice\<close>

text \<open>
  C3. After two \<open>/translate\<close> commands in the same group, handled one after the other,
  a read returns the flag it returned before them; after the first it returns the
  negation. The list of source languages read is the same before, between and after.
  When neither command carries a chat title, so is the group name
  (\<open>settings.get('group_name', '')\<close>: the empty string for a group without a row).
\<close>

theorem toggle_twice:
  assumes "chat_id u1 = gid" and "chat_id u2 = gid"
    and "d1 = snd (toggle_translation u1 d)" and "d2 = snd (toggle_translation u2 d1)"
    and "s0 = fst (get_group_settings gid d)"
    and "s1 = fst (get_group_settings gid d1)"
    and "s2 = fst (get_group_settings gid d2)"
  shows "auto_translate s1 = (\<not> auto_translate s0) \<and> auto_translate s2 = auto_translate s0
         \<and> source_langs s1 = source_langs s0 \<and> source_langs s2 = source_langs s0
         \<and> (\<not> truthy (chat_title u1) \<and> \<not> truthy (chat_title u2) \<longrightarrow>
              get_group_name s1 = get_group_name s0 \<and> get_group_name s2 = get_group_name s0)"
proof -
  have r1: "s1 = \<lparr>group_id = gid,
      group_name = Some (get_group_name (toggled u1 s0)),
      auto_translate = (\<not> auto_translate s0),
      source_langs = source_langs s0,
      target_lang = target_lang s0\<rparr>"
    using read_after_toggle [of u1 d] assms by simp
  have r2: "s2 = \<lparr>group_id = gid,
      group_name = Some (get_group_name (toggled u2 s1)),
      auto_translate = (\<not> auto_translate s1),
      source_langs = source_langs s1,
      target_lang = target_lang s1\<rparr>"
    using read_after_toggle [of u2 d1] assms by simp
  have flags: "auto_translate s1 = (\<not> auto_translate s0) \<and> auto_translate s2 = auto_translate s0
         \<and> source_langs s1 = source_langs s0 \<and> source_langs s2 = source_langs s0"
    by (simp add: r2) (simp add: r1)
  have names: "get_group_name s1 = get_group_name s0 \<and> get_group_name s2 = get_group_name s0"
    if "\<not> truthy (chat_title u1)" "\<not> truthy (chat_title u2)"
  proof -
    have a: "get_group_name s1 = get_group_name s0"
      using that(1) by (simp add: r1 get_group_name_def toggled_fields)
    have b: "get_group_name s2 = get_group_name s1"
      using that(2) by (simp add: r2 get_group_name_def toggled_fields)
    from a b show ?thesis by simp
  qed
  from flags names show ?thesis by blast
qed

theorem toggle_twice_witness:
  "auto_translate (fst (get_group_settings 1
      (snd (toggle_translation (command_update 1)
         (snd (toggle_translation (command_update 1) enabled_db)))))) =
     auto_translate (fst (get_group_settings 1 enabled_db))
   \<and> source_langs (fst (get_group_settings 1
      (snd (toggle_translation (command_update 1)
         (snd (toggle_translation (command_update 1) enabled_db)))))) =
     source_langs (fst (get_group_settings 1 enabled_db))
   \<and> get_group_name (fst (get_group_settings 1
      (snd (toggle_translation (command_update 1)
         (snd (toggle_translation (command_update 1) enabled_db)))))) =
     get_group_name (fst (get_group_settings 1 enabled_db))"
proof -
  have a: "chat_id (command_update 1) = 1" by (simp add: command_update_def)
  have t: "\<not> truthy (chat_title (command_update 1))"
    by (simp add: command_update_def chat_title_def truthy_def)
  from toggle_twice [OF a a refl refl refl refl refl, of enabled_db] t show ?thesis
    by simp
qed

section \<open>Two toggles at once\<close>

text \<open>
  C4, as amended. The lock is taken once for the read and once for the upsert of a
  toggle. Two toggles of one group whose steps do not interleave leave the table that
  handling them one after the other leaves, with the flag of the start. In each of the
  four schedules in which both reads come before both upserts, both invocations finish
  and the flag left is the negation of the flag of the start: one toggle is lost.
\<close>

theorem toggles_side_by_side:
  assumes "chat_id u1 = gid" and "chat_id u2 = gid"
  shows "interleave u1 u2 [First, First, Second, Second] (Start, Start, d) =
           (Finished, Finished, snd (toggle_translation u2 (snd (toggle_translation u1 d))))
         \<and> interleave u1 u2 [Second, Second, First, First] (Start, Start, d) =
           (Finished, Finished, snd (toggle_translation u1 (snd (toggle_translation u2 d))))
         \<and> stored_flag gid (snd (toggle_translation u2 (snd (toggle_translation u1 d)))) =
             stored_flag gid d
         \<and> stored_flag gid (snd (toggle_translation u1 (snd (toggle_translation u2 d)))) =
             stored_flag gid d
         \<and> (\<forall>sched \<in> {[First, Second, First, Second], [First, Second, Second, First],
                        [Second, First, First, Second], [Second, First, Second, First]}.
              fst (interleave u1 u2 sched (Start, Start, d)) = Finished
              \<and> fst (snd (interleave u1 u2 sched (Start, Start, d))) = Finished
              \<and> stored_flag gid (snd (snd (interleave u1 u2 sched (Start, Start, d)))) =
                  (\<not> stored_flag gid d))"
proof -
  have twice: "stored_flag gid (snd (toggle_translation v (snd (toggle_translation w d)))) =
           stored_flag gid d" if "chat_id v = gid" "chat_id w = gid" for v w
    using that read_after_toggle [of w d] read_after_toggle [of v "snd (toggle_translation w d)"]
    by (simp add: stored_flag_def)
  show ?thesis
    using serial_first [of u1 u2 d] serial_second [of u1 u2 d] twice [OF assms(2) assms(1)]
      twice [OF assms(1) assms(2)] overlapping [OF assms, of _ d]
    by blast
qed

theorem toggles_side_by_side_witness:
  "stored_flag 1 (snd (snd (interleave (command_update 1) (command_update 1)
       [First, Second, First, Second] (Start, Start, enabled_db)))) = False
   \<and> stored_flag 1 (snd (snd (interleave (command_update 1) (command_update 1)
       [First, First, Second, Second] (Start, Start, enabled_db)))) = True"
proof -
  have a: "chat_id (command_update 1) = 1" by (simp add: command_update_def)
  have f: "stored_flag 1 enabled_db"
    by (simp add: stored_flag_def get_group_settings_def enabled_db_def enabled_row_def)
  from toggles_side_by_side [OF a a, of enabled_db] f show ?thesis
    by simp
qed

text \<open>
  C4 as stated fails for the schedule read, read, upsert, upsert on a group without a
  row: the flag stored at the end is 1, and either serial order of the two toggles
  stores 0.
\<close>

theorem lost_toggle_counterexample:
  "interleave (command_update 1) (command_update 1) [First, Second, First, Second]
     (Start, Start, Map.empty) =
     (Finished, Finished,
      Map.empty(1 \<mapsto> \<lparr>row_group_name = utf8 [], row_auto_translate = 1,
                      row_source_langs = utf8 (str ''en,id''),
                      row_target_lang = utf8 (str ''my'')\<rparr>))
   \<and> snd (toggle_translation (command_update 1)
        (snd (toggle_translation (command_update 1) Map.empty))) =
      Map.empty(1 \<mapsto> \<lparr>row_group_name = utf8 [], row_auto_translate = 0,
                      row_source_langs = utf8 (str ''en,id''),
                      row_target_lang = utf8 (str ''my'')\<rparr>)"
proof -
  have r: "fst (get_group_settings 1
              (Map.empty(1 \<mapsto> \<lparr>row_group_name = utf8 [], row_auto_translate = 1,
                      row_source_langs = utf8 (str ''en,id''),
                      row_target_lang = utf8 (str ''my'')\<rparr>))) =
             \<lparr>group_id = 1, group_name = Some [], auto_translate = True,
              source_langs = [str ''en'', str ''id''], target_lang = str ''my''\<rparr>"
    by (simp add: get_group_settings_def split_en_id)
  have c: "chat_id (command_update 1) = 1"
    by (simp add: command_update_def)
  have first: "snd (toggle_translation (command_update 1) Map.empty) =
      Map.empty(1 \<mapsto> \<lparr>row_group_name = utf8 [], row_auto_translate = 1,
                      row_source_langs = utf8 (str ''en,id''),
                      row_target_lang = utf8 (str ''my'')\<rparr>)"
    by (simp add: toggle_db update_after_read first_toggle_row c)
  have second: "snd (toggle_translation (command_update 1)
        (Map.empty(1 \<mapsto> \<lparr>row_group_name = utf8 [], row_auto_translate = 1,
                      row_source_langs = utf8 (str ''en,id''),
                      row_target_lang = utf8 (str ''my'')\<rparr>))) =
      Map.empty(1 \<mapsto> \<lparr>row_group_name = utf8 [], row_auto_translate = 0,
                      row_source_langs = utf8 (str ''en,id''),
                      row_target_lang = utf8 (str ''my'')\<rparr>)"
    by (simp add: toggle_db c r update_group_settings_def encodable_join join_en_id
        get_group_name_def toggled_def chat_title_def truthy_def command_update_def)
  have both: "interleave (command_update 1) (command_update 1) [First, Second, First, Second]
     (Start, Start, Map.empty) =
     (Finished, Finished,
      Map.empty(1 \<mapsto> \<lparr>row_group_name = utf8 [], row_auto_translate = 1,
                      row_source_langs = utf8 (str ''en,id''),
                      row_target_lang = utf8 (str ''my'')\<rparr>))"
    by (simp add: Let_def case_prod_beta update_after_read first_toggle_row c)
  show ?thesis
    unfolding first second both by simp
qed

section \<open>Groups with translation off\<close>

text \<open>
  C5. When the group reads as translation off, the handler skips whatever the message
  is: it calls neither the detection nor the translation, sends no reply and leaves the
  table as it was.
\<close>

theorem disabled_group_skips:
  assumes "\<not> auto_translate (fst (get_group_settings (chat_id u) d))"
  shows "handle_translation e u d = (Skip Disabled, [], d)"
  using assms by (simp add: handle_translation_def Let_def case_prod_beta)

theorem disabled_group_skips_witness:
  "handle_translation (constant_env (Returned (Some (str ''en''))) (Returned (Some (str ''T''))))
     (text_update (str ''Good morning everyone'')) Map.empty = (Skip Disabled, [], Map.empty)"
proof -
  have "\<not> auto_translate (fst (get_group_settings (chat_id (text_update (str ''Good morning everyone''))) Map.empty))"
    by (simp add: get_group_settings_def default_settings_def)
  then show ?thesis
    by (rule disabled_group_skips)
qed

section \<open>Short messages\<close>

text \<open>
  C6. In a group with translation on, a message whose text is empty, or has fewer than
  5 code points once stripped, is skipped as too short, and no call is made (the
  detection is not called).
\<close>

theorem short_message_skips:
  assumes "auto_translate (fst (get_group_settings (chat_id u) d))"
    and "message_text u = Some t"
    and "t = [] \<or> length (strip t) < 5"
  shows "handle_translation e u d = (Skip TooShort, [], d)"
  using assms by (auto simp add: handle_translation_def Let_def case_prod_beta)

theorem short_message_skips_witness:
  "handle_translation (constant_env (Returned (Some (str ''en''))) (Returned (Some (str ''T''))))
     (text_update (str '' hi '')) enabled_db = (Skip TooShort, [], enabled_db)"
proof -
  have a: "auto_translate (fst (get_group_settings (chat_id (text_update (str '' hi ''))) enabled_db))"
    by (simp add: read_enabled_db)
  have b: "message_text (text_update (str '' hi '')) = Some (str '' hi '')"
    by simp
  have c: "str '' hi '' = [] \<or> length (strip (str '' hi '')) < 5"
    by (simp add: str_def strip_def isspace_def)
  show ?thesis
    by (rule short_message_skips [OF a b c])
qed

section \<open>Failures of the translator\<close>

text \<open>
  C7. When the detection raises or returns nothing usable, or the language is detected
  and the translation of the message from it into the group's target raises or returns
  nothing usable, the handler returns with a skip, sends no reply and leaves the table
  as it was.
\<close>

theorem provider_failure_skips:
  assumes "message_text u = Some t"
    and "unusable (detect e t) \<or>
         (\<exists>src. detect e t = Returned (Some src) \<and>
            unusable (translate e t src (target_lang (fst (get_group_settings (chat_id u) d)))))"
  shows "(\<exists>r. fst (handle_translation e u d) = Skip r)
         \<and> \<not> list_ex is_Reply (fst (snd (handle_translation e u d)))
         \<and> snd (snd (handle_translation e u d)) = d"
proof -
  from assms(2) show ?thesis
  proof
    assume "unusable (detect e t)"
    from unusable_detect [OF this] show ?thesis
      using assms(1) detect_language_events [of e t]
      by (auto simp add: handle_translation_def Let_def case_prod_beta)
  next
    assume "\<exists>src. detect e t = Returned (Some src) \<and>
            unusable (translate e t src (target_lang (fst (get_group_settings (chat_id u) d))))"
    then obtain src where s: "detect e t = Returned (Some src)"
      and f: "unusable (translate e t src (target_lang (fst (get_group_settings (chat_id u) d))))"
      by blast
    show ?thesis
      using assms(1) unusable_translate [OF f] translate_text_events [of e t src]
      by (simp add: handle_translation_def Let_def case_prod_beta detect_language_Returned [OF s])
  qed
qed

theorem provider_failure_skips_witness:
  "(\<exists>r. fst (handle_translation (constant_env (Raised (str ''timeout'')) (Returned None))
            (text_update (str ''Good morning everyone'')) enabled_db) = Skip r)
   \<and> \<not> list_ex is_Reply (fst (snd (handle_translation
            (constant_env (Raised (str ''timeout'')) (Returned None))
            (text_update (str ''Good morning everyone'')) enabled_db)))
   \<and> snd (snd (handle_translation (constant_env (Raised (str ''timeout'')) (Returned None))
            (text_update (str ''Good morning everyone'')) enabled_db)) = enabled_db"
proof -
  have a: "message_text (text_update (str ''Good morning everyone'')) =
             Some (str ''Good morning everyone'')"
    by simp
  have b: "unusable (detect (constant_env (Raised (str ''timeout'')) (Returned None))
             (str ''Good morning everyone''))"
    by simp
  show ?thesis
    by (rule provider_failure_skips [OF a disjI1 [OF b]])
qed

section \<open>Messages already in the target language\<close>

text \<open>
  C8, as amended. In a group with translation on, a long enough message whose detected
  language is the group's target is skipped after the detection call alone (no
  translation call, no reply). The skip is the one for the target language when the
  target is also listed among the sources; when it is not listed, the membership test
  before it returns first (source not eligible), and an empty language code counts as
  a failed detection.
\<close>

theorem target_language_skips:
  assumes "auto_translate (fst (get_group_settings (chat_id u) d))"
    and "message_text u = Some t" and "t \<noteq> []" and "\<not> length (strip t) < 5"
    and "detect e t = Returned (Some src)"
    and "src = target_lang (fst (get_group_settings (chat_id u) d))"
  shows "handle_translation e u d =
           (Skip (if src = [] then DetectionFailed
                  else if src \<notin> set (source_langs (fst (get_group_settings (chat_id u) d)))
                  then SourceNotEligible else AlreadyTarget),
            [DetectCall t], d)"
  using assms
  by (simp add: handle_translation_def Let_def case_prod_beta detect_language_Returned)

theorem target_language_skips_witness:
  "handle_translation (constant_env (Returned (Some (str ''my''))) (Returned (Some (str ''T''))))
     (text_update (str ''Good morning everyone'')) enabled_db =
     (Skip SourceNotEligible, [DetectCall (str ''Good morning everyone'')], enabled_db)"
proof -
  let ?e = "constant_env (Returned (Some (str ''my''))) (Returned (Some (str ''T'')))"
  let ?u = "text_update (str ''Good morning everyone'')"
  have a: "auto_translate (fst (get_group_settings (chat_id ?u) enabled_db))"
    by (simp add: read_enabled_db)
  have b: "message_text ?u = Some (str ''Good morning everyone'')" by simp
  have c: "str ''Good morning everyone'' \<noteq> []" using good_morning_long by simp
  have c': "\<not> length (strip (str ''Good morning everyone'')) < 5" using good_morning_long by simp
  have f: "detect ?e (str ''Good morning everyone'') = Returned (Some (str ''my''))" by simp
  have g: "str ''my'' = target_lang (fst (get_group_settings (chat_id ?u) enabled_db))"
    by (simp add: read_enabled_db)
  from target_language_skips [OF a b c c' f g] show ?thesis
    by (simp add: read_enabled_db str_def)
qed

text \<open>
  C8 as stated fails in the group with sources \<open>en\<close>, \<open>id\<close> and target \<open>my\<close>:
  a message detected as \<open>my\<close> leaves at the membership test, not at the comparison
  with the target.
\<close>

theorem target_language_reason_counterexample:
  "auto_translate (fst (get_group_settings 1 enabled_db))
   \<and> target_lang (fst (get_group_settings 1 enabled_db)) = str ''my''
   \<and> \<not> length (strip (str ''Good morning everyone'')) < 5
   \<and> fst (handle_translation
        (constant_env (Returned (Some (str ''my''))) (Returned (Some (str ''T''))))
        (text_update (str ''Good morning everyone'')) enabled_db) = Skip SourceNotEligible
   \<and> fst (handle_translation
        (constant_env (Returned (Some (str ''my''))) (Returned (Some (str ''T''))))
        (text_update (str ''Good morning everyone'')) enabled_db) \<noteq> Skip AlreadyTarget"
  using good_morning_long
  by (simp add: handle_translation_def Let_def read_enabled_db detect_language_def str_def)

section \<open>Banning without a replied-to message\<close>

text \<open>
  C9. The claim asks for the corrective text whenever \<open>/ban\<close> is not a reply to a
  message. For a \<open>/ban\<close> that its sender has edited and that is not a reply, the
  handler raises \<open>AttributeError\<close> at its first test, where it reads
  \<open>update.message\<close>: it sends nothing. It calls no ban and leaves the table as it was.
\<close>

theorem ban_edited_command_raises:
  "reply_to_message edited_ban_update = None
   \<and> ban_user (constant_env (Returned None) (Returned None)) edited_ban_update enabled_db =
       ((Some AttributeError, []), enabled_db)"
  by (simp add: ban_user_def edited_ban_update_def)

text \<open>
  For a \<open>/ban\<close> sent as a new message the handler does what the claim says: it sends
  the corrective text, calls no ban and leaves the table as it was.
\<close>

lemma ban_new_message_without_reply:
  assumes "\<not> edited u" and "reply_to_message u = None"
  shows "ban_user e u d =
           ((None, [Reply (str ''Please reply to the user's message to ban them.'')]), d)"
  using assms by (simp add: ban_user_def)

lemma ban_edited_raises: "edited u \<Longrightarrow> ban_user e u d = ((Some AttributeError, []), d)"
  by (simp add: ban_user_def)

section \<open>Writing a dictionary and reading it back\<close>

text \<open>
  C10, as amended. For a dictionary whose list of source languages is not empty, whose
  codes contain no comma, and whose name, codes and target hold no surrogate code
  point, \<open>_update_group_settings\<close> returns without an exception and
  \<open>_get_group_settings\<close> of the same group then returns the group identifier, the
  name (the empty string when the key was absent), the flag, the list of source
  languages and the target that were written.
\<close>

theorem upsert_then_read:
  assumes "source_langs s \<noteq> []" and "\<forall>l\<in>set (source_langs s). comma \<notin> set l"
    and "encodable (get_group_name s)" and "\<forall>l\<in>set (source_langs s). encodable l"
    and "encodable (target_lang s)"
  shows "fst (update_group_settings gid s d) = None
         \<and> fst (get_group_settings gid (snd (update_group_settings gid s d))) =
           \<lparr>group_id = gid, group_name = Some (get_group_name s),
            auto_translate = auto_translate s, source_langs = source_langs s,
            target_lang = target_lang s\<rparr>"
proof -
  have j: "encodable (join [comma] (source_langs s))"
    using assms(4) by (simp add: encodable_join)
  show ?thesis
    using assms(1,2,3,5) j
    by (simp add: get_group_settings_def update_group_settings_def split_join)
qed

theorem upsert_then_read_witness:
  "fst (get_group_settings 7
     (snd (update_group_settings 7
        \<lparr>group_id = 7, group_name = Some (str ''Friends''), auto_translate = True,
         source_langs = [str ''en'', str ''fr''], target_lang = str ''my''\<rparr> enabled_db))) =
     \<lparr>group_id = 7, group_name = Some (str ''Friends''), auto_translate = True,
      source_langs = [str ''en'', str ''fr''], target_lang = str ''my''\<rparr>"
proof -
  let ?s = "\<lparr>group_id = 7, group_name = Some (str ''Friends''), auto_translate = True,
         source_langs = [str ''en'', str ''fr''], target_lang = str ''my''\<rparr>"
  have a: "source_langs ?s \<noteq> []" by simp
  have b: "\<forall>l\<in>set (source_langs ?s). comma \<notin> set l"
    by (simp add: str_def comma_def)
  have c: "encodable (get_group_name ?s)"
    by (simp add: get_group_name_def)
  have f: "\<forall>l\<in>set (source_langs ?s). encodable l"
    by simp
  have g: "encodable (target_lang ?s)"
    by simp
  from upsert_then_read [OF a b c f g, of 7 enabled_db] show ?thesis
    by (simp add: get_group_name_def)
qed

text \<open>
  C10 as stated, for every dictionary with a non-empty list of comma-free codes, fails
  for a group name that holds a surrogate code point: the INSERT raises
  \<open>UnicodeEncodeError\<close>, no row is written, and the read returns the default
  dictionary, whose flag is not the one of the dictionary.
\<close>

theorem surrogate_name_counterexample:
  "source_langs surrogate_settings = [str ''en'', str ''id'']
   \<and> comma \<notin> set (str ''en'') \<and> comma \<notin> set (str ''id'')
   \<and> update_group_settings 7 surrogate_settings Map.empty = (Some UnicodeEncodeError, Map.empty)
   \<and> fst (get_group_settings 7 (snd (update_group_settings 7 surrogate_settings Map.empty))) =
       \<lparr>group_id = 7, group_name = None, auto_translate = False,
        source_langs = [str ''en'', str ''id''], target_lang = str ''my''\<rparr>
   \<and> auto_translate surrogate_settings"
proof -
  have n: "\<not> encodable (get_group_name surrogate_settings)"
    by (simp add: surrogate_settings_def get_group_name_def encodable_def surrogate_def)
  have u: "update_group_settings 7 surrogate_settings Map.empty =
             (Some UnicodeEncodeError, Map.empty)"
    using n by (simp add: update_group_settings_def)
  have c: "comma \<notin> set (str ''en'') \<and> comma \<notin> set (str ''id'')"
    by (simp add: str_def comma_def)
  show ?thesis
    unfolding u using c
    by (simp add: surrogate_settings_def get_group_settings_def default_settings_def)
qed

end
